theory Spec2Isabelle
  imports Main
begin

section \<open>Data model\<close>

text \<open>
  The enums of \<^verbatim>\<open>plugin-status.enum.ts\<close> and \<^verbatim>\<open>version-status.enum.ts\<close>. The plugin
  statuses carry a prefix because HOL constructors share one name space.
\<close>

datatype PluginStatus = P_SUBMITTED | P_PENDING_REVIEW | P_PUBLISHED | P_REJECTED

datatype VersionStatus = SUBMITTED | PENDING_REVIEW | PUBLISHED | REJECTED | FLAGGED

datatype ReviewDecision = PUBLISH | REJECT

text \<open>
  The exception classes of \<^verbatim>\<open>common/exceptions\<close>, with the arguments their constructors
  take; \<open>Failure\<close> is a plain \<^verbatim>\<open>Error(message)\<close>.
\<close>

datatype error =
    ResourceNotFound string string string
  | InvalidVersion string
  | VersionConflict string string
  | InvalidTransition string
  | Failure string

text \<open>
  The manifest is an open JSON document; the model keeps the fields the services read.
  A field that is absent is \<open>None\<close>.
\<close>

record Manifest =
  m_name :: "string option"
  m_version :: "string option"
  m_description :: "string option"
  m_author :: "string option"
  m_minAppVersion :: "string option"

text \<open>
  The entity \<^verbatim>\<open>Plugin\<close> (table \<^verbatim>\<open>plugins\<close>). Nullable columns are options, timestamps
  are milliseconds.
\<close>

record Plugin =
  p_id :: string
  p_packageId :: string
  p_name :: string
  p_description :: "string option"
  p_author :: string
  p_iconKey :: "string option"
  p_status :: PluginStatus
  p_latestVersionId :: "string option"
  p_category :: "string option"
  p_tags :: "string option"
  p_sourceUrl :: "string option"
  p_createdAt :: nat
  p_updatedAt :: nat

text \<open>The entity \<^verbatim>\<open>PluginVersion\<close> (table \<^verbatim>\<open>plugin_versions\<close>).\<close>

record PluginVersion =
  v_id :: string
  v_pluginId :: string
  v_version :: string
  v_storagePath :: "string option"
  v_storageBucket :: "string option"
  v_tempStoragePath :: "string option"
  v_fileSizeBytes :: "nat option"
  v_checksumSha256 :: "string option"
  v_manifest :: Manifest
  v_minAppVersion :: string
  v_releaseNotes :: "string option"
  v_status :: VersionStatus
  v_rejectionReason :: "string option"
  v_reviewedBy :: "string option"
  v_createdAt :: nat
  v_reviewedAt :: "nat option"
  v_publishedAt :: "nat option"
  v_downloadCount :: nat
  v_isFlagged :: bool
  v_flagReason :: "string option"

text \<open>The part of \<^verbatim>\<open>supabase.config.ts\<close> that the storage service reads.\<close>

record Config =
  projectUrl :: string
  signedUrlTtlSeconds :: nat
  pluginsBucket :: string
  iconsBucket :: string
  tempUploadsBucket :: string

text \<open>
  The calls the services make on the blob store (\<^verbatim>\<open>supabase.storage.from(bucket)\<close>), each
  with its bucket and its path.
\<close>

datatype call = Download string string | Upload string string | Remove string string

text \<open>
  The state the services act on: the two tables as lists of rows, and the blob store.
  The blob store is an external collaborator, so the model carries what it holds
  (\<open>st_objects\<close>, by bucket and path), the error it answers a call with, if any
  (\<open>st_failing\<close>; the source reads it from the \<^verbatim>\<open>error\<close> field of the reply), the reply of
  the signing endpoint to a POST (\<open>st_signing\<close>, the \<^verbatim>\<open>signedURL\<close> field when the request
  succeeds), and the calls made so far in order (\<open>st_calls\<close>).
\<close>

record world =
  db_plugins :: "Plugin list"
  db_versions :: "PluginVersion list"
  st_objects :: "string \<times> string \<Rightarrow> string option"
  st_failing :: "call \<Rightarrow> string option"
  st_signing :: "string \<Rightarrow> string option"
  st_calls :: "call list"

text \<open>JavaScript truthiness of a nullable string: null, undefined and the empty string are falsy.\<close>

fun truthy :: "string option \<Rightarrow> bool" where
  "truthy None = False"
| "truthy (Some s) = (s \<noteq> [])"

text \<open>\<^verbatim>\<open>x || null\<close> on a nullable string, as the repositories write it on insert.\<close>

definition or_null :: "string option \<Rightarrow> string option" where
  "or_null x = (if truthy x then x else None)"

text \<open>\<^verbatim>\<open>x || d\<close> with a string default.\<close>

definition or_default :: "string option \<Rightarrow> string \<Rightarrow> string" where
  "or_default x d = (case x of None \<Rightarrow> d | Some s \<Rightarrow> if s = [] then d else s)"

section \<open>The blob store and the storage service\<close>

text \<open>
  The three calls of the store's client. A call never throws: it answers with an error
  or without one. A download of an object that the store does not hold answers with an
  error; an upload is always an upsert in this code base; what a removal of an absent
  object answers is the store's business, so it is left to \<open>st_failing\<close>.
\<close>

definition storage_download :: "world \<Rightarrow> string \<Rightarrow> string \<Rightarrow> (string + string) \<times> world" where
  "storage_download w bucket path =
     (let w' = w\<lparr>st_calls := st_calls w @ [Download bucket path]\<rparr> in
      case st_failing w (Download bucket path) of
        Some msg \<Rightarrow> (Inl msg, w')
      | None \<Rightarrow>
          (case st_objects w (bucket, path) of
             None \<Rightarrow> (Inl ''Object not found'', w')
           | Some bytes \<Rightarrow> (Inr bytes, w')))"

definition storage_upload :: "world \<Rightarrow> string \<Rightarrow> string \<Rightarrow> string \<Rightarrow> string option \<times> world" where
  "storage_upload w bucket path bytes =
     (let w' = w\<lparr>st_calls := st_calls w @ [Upload bucket path]\<rparr> in
      case st_failing w (Upload bucket path) of
        Some msg \<Rightarrow> (Some msg, w')
      | None \<Rightarrow> (None, w'\<lparr>st_objects := (st_objects w)((bucket, path) := Some bytes)\<rparr>))"

definition storage_remove :: "world \<Rightarrow> string \<Rightarrow> string \<Rightarrow> string option \<times> world" where
  "storage_remove w bucket path =
     (let w' = w\<lparr>st_calls := st_calls w @ [Remove bucket path]\<rparr> in
      case st_failing w (Remove bucket path) of
        Some msg \<Rightarrow> (Some msg, w')
      | None \<Rightarrow> (None, w'\<lparr>st_objects := (st_objects w)((bucket, path) := None)\<rparr>))"

text \<open>\<^verbatim>\<open>StorageService.getArtifactPath\<close>: \<^verbatim>\<open>`${packageId}/v${version}/plugin.synx`\<close>.\<close>

definition getArtifactPath :: "string \<Rightarrow> string \<Rightarrow> string" where
  "getArtifactPath packageId version = packageId @ ''/v'' @ version @ ''/plugin.synx''"

text \<open>
  \<^verbatim>\<open>SupabaseStorageService.deleteArtifact\<close>: one removal; an error of the store is logged
  and thrown again.
\<close>

definition deleteArtifact :: "world \<Rightarrow> string \<Rightarrow> string \<Rightarrow> (error + unit) \<times> world" where
  "deleteArtifact w storagePath bucket =
     (case storage_remove w bucket storagePath of
        (Some msg, w') \<Rightarrow> (Inl (Failure (''Artifact deletion failed: '' @ msg)), w')
      | (None, w') \<Rightarrow> (Inr (), w'))"

text \<open>
  \<^verbatim>\<open>SupabaseStorageService.moveArtifact\<close>: download from the temp bucket, upload to the
  plugins bucket under the artifact path, delete from the temp bucket. The first error
  ends the method; the \<^verbatim>\<open>catch\<close> logs it and throws it again.
\<close>

definition moveArtifact :: "Config \<Rightarrow> world \<Rightarrow> string \<Rightarrow> string \<Rightarrow> string \<Rightarrow> (error + string) \<times> world" where
  "moveArtifact cfg w sourcePath packageId version =
     (let targetPath = getArtifactPath packageId version in
      case storage_download w (tempUploadsBucket cfg) sourcePath of
        (Inl msg, w1) \<Rightarrow> (Inl (Failure (''Failed to download source file: '' @ msg)), w1)
      | (Inr sourceData, w1) \<Rightarrow>
          (case storage_upload w1 (pluginsBucket cfg) targetPath sourceData of
             (Some msg, w2) \<Rightarrow>
               (Inl (Failure (''Failed to upload to permanent storage: '' @ msg)), w2)
           | (None, w2) \<Rightarrow>
               (case deleteArtifact w2 sourcePath (tempUploadsBucket cfg) of
                  (Inl e, w3) \<Rightarrow> (Inl e, w3)
                | (Inr u, w3) \<Rightarrow> (Inr targetPath, w3))))"

text \<open>Whether the store answers the download, and then the upload, of a move without error.\<close>

definition download_ok :: "Config \<Rightarrow> world \<Rightarrow> string \<Rightarrow> bool" where
  "download_ok cfg w sourcePath =
     (st_failing w (Download (tempUploadsBucket cfg) sourcePath) = None \<and>
      st_objects w (tempUploadsBucket cfg, sourcePath) \<noteq> None)"

definition upload_ok :: "Config \<Rightarrow> world \<Rightarrow> string \<Rightarrow> string \<Rightarrow> bool" where
  "upload_ok cfg w packageId version =
     (st_failing w (Upload (pluginsBucket cfg) (getArtifactPath packageId version)) = None)"

text \<open>The calls a move makes, in order, as far as it gets.\<close>

definition move_calls :: "Config \<Rightarrow> world \<Rightarrow> string \<Rightarrow> string \<Rightarrow> string \<Rightarrow> call list" where
  "move_calls cfg w sourcePath packageId version =
     (if \<not> download_ok cfg w sourcePath then
        [Download (tempUploadsBucket cfg) sourcePath]
      else if \<not> upload_ok cfg w packageId version then
        [Download (tempUploadsBucket cfg) sourcePath,
         Upload (pluginsBucket cfg) (getArtifactPath packageId version)]
      else
        [Download (tempUploadsBucket cfg) sourcePath,
         Upload (pluginsBucket cfg) (getArtifactPath packageId version),
         Remove (tempUploadsBucket cfg) sourcePath])"

section \<open>The repositories\<close>

text \<open>
  The tables are queried through PostgREST. \<^verbatim>\<open>.single()\<close> answers with the row when the
  query has exactly one row and with an error otherwise; the repositories turn that
  error into \<^verbatim>\<open>null\<close> on reads and into a thrown \<^verbatim>\<open>Error\<close> on writes.

  A query fails only for a reason the tables give: no single row, or a violated key of
  the schema. A lost connection is not modelled, and neither are the triggers of the
  schema script that stamp \<^verbatim>\<open>updated_at\<close>. Each operation of a service reads the clock
  once, as \<open>now\<close> in milliseconds, and takes the identifiers that \<^verbatim>\<open>crypto.randomUUID()\<close>
  would draw as arguments.
\<close>

definition single :: "'a list \<Rightarrow> 'a option" where
  "single rows = (case rows of [] \<Rightarrow> None | r # rest \<Rightarrow> if rest = [] then Some r else None)"

definition single_row_error :: string where
  "single_row_error = ''JSON object requested, multiple (or no) rows returned''"

text \<open>\<^verbatim>\<open>PluginsRepository.findById\<close> and \<^verbatim>\<open>PluginsRepository.findByPackageId\<close>.\<close>

definition plugins_findById :: "world \<Rightarrow> string \<Rightarrow> Plugin option" where
  "plugins_findById w i = single (filter (\<lambda>r. p_id r = i) (db_plugins w))"

definition findByPackageId :: "world \<Rightarrow> string \<Rightarrow> Plugin option" where
  "findByPackageId w packageId = single (filter (\<lambda>r. p_packageId r = packageId) (db_plugins w))"

text \<open>
  \<^verbatim>\<open>PluginsRepository.update\<close>: the fields of the DTO that are not \<^verbatim>\<open>undefined\<close> are
  assigned, which the model passes as the function \<open>f\<close> on the row, and \<^verbatim>\<open>updated_at\<close> is
  set to the current time.
\<close>

definition plugins_update ::
  "world \<Rightarrow> nat \<Rightarrow> string \<Rightarrow> (Plugin \<Rightarrow> Plugin) \<Rightarrow> (error + Plugin) \<times> world" where
  "plugins_update w now i f =
     (case plugins_findById w i of
        None \<Rightarrow> (Inl (Failure (''Failed to update plugin: '' @ single_row_error)), w)
      | Some p \<Rightarrow>
          (Inr ((f p)\<lparr>p_updatedAt := now\<rparr>),
           w\<lparr>db_plugins :=
               map (\<lambda>r. if p_id r = i then (f r)\<lparr>p_updatedAt := now\<rparr> else r) (db_plugins w)\<rparr>))"

text \<open>\<^verbatim>\<open>PluginVersionsRepository.findById\<close> and \<^verbatim>\<open>findByPluginIdAndVersion\<close>.\<close>

definition versions_findById :: "world \<Rightarrow> string \<Rightarrow> PluginVersion option" where
  "versions_findById w i = single (filter (\<lambda>r. v_id r = i) (db_versions w))"

definition findByPluginIdAndVersion :: "world \<Rightarrow> string \<Rightarrow> string \<Rightarrow> PluginVersion option" where
  "findByPluginIdAndVersion w pluginId version =
     single (filter (\<lambda>r. v_pluginId r = pluginId \<and> v_version r = version) (db_versions w))"

text \<open>\<^verbatim>\<open>PluginVersionsRepository.update\<close>, with the assigned fields as the function \<open>f\<close>.\<close>

definition versions_update ::
  "world \<Rightarrow> string \<Rightarrow> (PluginVersion \<Rightarrow> PluginVersion) \<Rightarrow> (error + PluginVersion) \<times> world" where
  "versions_update w i f =
     (case versions_findById w i of
        None \<Rightarrow> (Inl (Failure (''Failed to update plugin version: '' @ single_row_error)), w)
      | Some v \<Rightarrow>
          (Inr (f v),
           w\<lparr>db_versions := map (\<lambda>r. if v_id r = i then f r else r) (db_versions w)\<rparr>))"

text \<open>
  \<^verbatim>\<open>PluginVersionsRepository.findPublishedVersions\<close>: the PUBLISHED versions of a plugin,
  \<^verbatim>\<open>ORDER BY created_at DESC\<close>. The database leaves the order of rows with equal
  \<^verbatim>\<open>created_at\<close> open; the model takes the reverse of the stable ascending sort.
\<close>

definition findPublishedVersions :: "world \<Rightarrow> string \<Rightarrow> PluginVersion list" where
  "findPublishedVersions w pluginId =
     rev (sort_key v_createdAt
       (filter (\<lambda>r. v_pluginId r = pluginId \<and> v_status r = PUBLISHED) (db_versions w)))"

section \<open>The review service\<close>

record ReviewDecisionRequestDto =
  rd_decision :: ReviewDecision
  rd_rejectionReason :: "string option"
  rd_reviewedBy :: string

fun show_VersionStatus :: "VersionStatus \<Rightarrow> string" where
  "show_VersionStatus SUBMITTED = ''SUBMITTED''"
| "show_VersionStatus PENDING_REVIEW = ''PENDING_REVIEW''"
| "show_VersionStatus PUBLISHED = ''PUBLISHED''"
| "show_VersionStatus REJECTED = ''REJECTED''"
| "show_VersionStatus FLAGGED = ''FLAGGED''"

fun show_ReviewDecision :: "ReviewDecision \<Rightarrow> string" where
  "show_ReviewDecision PUBLISH = ''PUBLISH''"
| "show_ReviewDecision REJECT = ''REJECT''"

text \<open>\<^verbatim>\<open>PluginReviewService.getVersionForReview\<close>.\<close>

definition getVersionForReview :: "world \<Rightarrow> string \<Rightarrow> error + PluginVersion" where
  "getVersionForReview w versionId =
     (case versions_findById w versionId of
        None \<Rightarrow> Inl (ResourceNotFound ''PluginVersion'' ''id'' versionId)
      | Some version \<Rightarrow> Inr version)"

text \<open>\<^verbatim>\<open>PluginReviewService.isValidTransition\<close>: the decision is not looked at.\<close>

fun isValidTransition :: "VersionStatus \<Rightarrow> ReviewDecision \<Rightarrow> bool" where
  "isValidTransition SUBMITTED d = True"
| "isValidTransition PENDING_REVIEW d = True"
| "isValidTransition PUBLISHED d = False"
| "isValidTransition REJECTED d = False"
| "isValidTransition FLAGGED d = False"

text \<open>\<^verbatim>\<open>PluginReviewService.performAutomatedSafetyCheck\<close>: a placeholder, \<^verbatim>\<open>return true\<close>.\<close>

definition performAutomatedSafetyCheck :: "PluginVersion \<Rightarrow> bool" where
  "performAutomatedSafetyCheck version = True"

text \<open>
  The first block of \<^verbatim>\<open>handlePublishDecision\<close>: when the version has a truthy
  \<^verbatim>\<open>tempStoragePath\<close>, move the artifact and record the permanent location. Any error
  inside the \<^verbatim>\<open>try\<close>, from the move or from the update, is replaced by one fixed error.
\<close>

definition publish_move ::
  "Config \<Rightarrow> world \<Rightarrow> PluginVersion \<Rightarrow> Plugin \<Rightarrow> (error + unit) \<times> world" where
  "publish_move cfg w version plugin =
     (case v_tempStoragePath version of
        None \<Rightarrow> (Inr (), w)
      | Some tmp \<Rightarrow>
          if tmp = [] then (Inr (), w)
          else
            (case moveArtifact cfg w tmp (p_packageId plugin) (v_version version) of
               (Inl e, w1) \<Rightarrow> (Inl (Failure ''Failed to move artifact to permanent storage''), w1)
             | (Inr storagePath, w1) \<Rightarrow>
                 (case versions_update w1 (v_id version)
                         (\<lambda>r. r\<lparr>v_storagePath := Some storagePath,
                                 v_storageBucket := Some ''plugins'',
                                 v_tempStoragePath := None\<rparr>) of
                    (Inl e, w2) \<Rightarrow>
                      (Inl (Failure ''Failed to move artifact to permanent storage''), w2)
                  | (Inr r, w2) \<Rightarrow> (Inr (), w2))))"

text \<open>\<^verbatim>\<open>PluginReviewService.handlePublishDecision\<close>.\<close>

definition handlePublishDecision ::
  "Config \<Rightarrow> nat \<Rightarrow> world \<Rightarrow> PluginVersion \<Rightarrow> Plugin \<Rightarrow> string \<Rightarrow> (error + unit) \<times> world" where
  "handlePublishDecision cfg now w version plugin reviewedBy =
     (case publish_move cfg w version plugin of
        (Inl e, w1) \<Rightarrow> (Inl e, w1)
      | (Inr u, w1) \<Rightarrow>
          (case versions_update w1 (v_id version)
                  (\<lambda>r. r\<lparr>v_status := PUBLISHED,
                          v_reviewedAt := Some now,
                          v_reviewedBy := Some reviewedBy,
                          v_rejectionReason := None,
                          v_publishedAt := Some now\<rparr>) of
             (Inl e, w2) \<Rightarrow> (Inl e, w2)
           | (Inr r, w2) \<Rightarrow>
               (case plugins_update w2 now (p_id plugin)
                       (\<lambda>r. r\<lparr>p_latestVersionId := Some (v_id version),
                               p_status := P_PUBLISHED\<rparr>) of
                  (Inl e, w3) \<Rightarrow> (Inl e, w3)
                | (Inr r, w3) \<Rightarrow> (Inr (), w3))))"

text \<open>
  \<^verbatim>\<open>PluginReviewService.handleRejectDecision\<close>. The temp artifact is deleted from the
  bucket named \<^verbatim>\<open>'temp_uploads'\<close> and an error of that deletion is logged only. A
  \<^verbatim>\<open>rejectionReason\<close> that the request leaves out is \<^verbatim>\<open>undefined\<close> and is not assigned.
\<close>

definition handleRejectDecision ::
  "nat \<Rightarrow> world \<Rightarrow> PluginVersion \<Rightarrow> Plugin \<Rightarrow> ReviewDecisionRequestDto \<Rightarrow> (error + unit) \<times> world" where
  "handleRejectDecision now w version plugin d =
     (let w1 = (case v_tempStoragePath version of
                  None \<Rightarrow> w
                | Some tmp \<Rightarrow> if tmp = [] then w else snd (deleteArtifact w tmp ''temp_uploads''))
      in
      case versions_update w1 (v_id version)
              (\<lambda>r. r\<lparr>v_status := REJECTED,
                      v_reviewedAt := Some now,
                      v_reviewedBy := Some (rd_reviewedBy d),
                      v_rejectionReason :=
                        (case rd_rejectionReason d of
                           None \<Rightarrow> v_rejectionReason r
                         | Some reason \<Rightarrow> Some reason),
                      v_tempStoragePath := None\<rparr>) of
        (Inl e, w2) \<Rightarrow> (Inl e, w2)
      | (Inr r, w2) \<Rightarrow>
          if Some (v_id version) = p_latestVersionId plugin then
            (case findPublishedVersions w2 (p_id plugin) of
               [] \<Rightarrow>
                 (case plugins_update w2 now (p_id plugin)
                         (\<lambda>r. r\<lparr>p_latestVersionId := None, p_status := P_REJECTED\<rparr>) of
                    (Inl e, w3) \<Rightarrow> (Inl e, w3)
                  | (Inr r, w3) \<Rightarrow> (Inr (), w3))
             | newest # older \<Rightarrow>
                 (case plugins_update w2 now (p_id plugin)
                         (\<lambda>r. r\<lparr>p_latestVersionId := Some (v_id newest)\<rparr>) of
                    (Inl e, w3) \<Rightarrow> (Inl e, w3)
                  | (Inr r, w3) \<Rightarrow> (Inr (), w3)))
          else (Inr (), w2))"

text \<open>\<^verbatim>\<open>PluginReviewService.submitReviewDecision\<close>.\<close>

definition submitReviewDecision ::
  "Config \<Rightarrow> nat \<Rightarrow> world \<Rightarrow> string \<Rightarrow> ReviewDecisionRequestDto \<Rightarrow> (error + unit) \<times> world" where
  "submitReviewDecision cfg now w versionId d =
     (case getVersionForReview w versionId of
        Inl e \<Rightarrow> (Inl e, w)
      | Inr version \<Rightarrow>
          (case plugins_findById w (v_pluginId version) of
             None \<Rightarrow> (Inl (ResourceNotFound ''Plugin'' ''id'' (v_pluginId version)), w)
           | Some plugin \<Rightarrow>
               if \<not> isValidTransition (v_status version) (rd_decision d) then
                 (Inl (InvalidTransition
                    (''Version status is '' @ show_VersionStatus (v_status version) @
                     '', cannot transition to '' @ show_ReviewDecision (rd_decision d))), w)
               else if rd_decision d = PUBLISH \<and> \<not> performAutomatedSafetyCheck version then
                 (Inl (InvalidTransition
                    ''Automated safety check failed. Please review the code for security issues.''),
                  w)
               else
                 (case rd_decision d of
                    PUBLISH \<Rightarrow> handlePublishDecision cfg now w version plugin (rd_reviewedBy d)
                  | REJECT \<Rightarrow> handleRejectDecision now w version plugin d)))"


section \<open>The rest of the storage service\<close>

text \<open>
  The white space that \<^verbatim>\<open>String.prototype.trim\<close> removes, as far as it is ASCII
  (tab, line feed, vertical tab, form feed, carriage return, space).
\<close>

definition is_space :: "char \<Rightarrow> bool" where
  "is_space c = ((9 \<le> (of_char c :: nat) \<and> (of_char c :: nat) \<le> 13) \<or> (of_char c :: nat) = 32)"

text \<open>
  \<^verbatim>\<open>SupabaseStorageService.getSignedUrl\<close>. The path check throws before the \<^verbatim>\<open>try\<close>;
  every failure of the POST, and a reply without a \<^verbatim>\<open>signedURL\<close>, ends in the one
  error of the \<^verbatim>\<open>catch\<close>. The result is the URL and \<^verbatim>\<open>expiresAt\<close> in seconds.
\<close>

definition getSignedUrl ::
  "Config \<Rightarrow> nat \<Rightarrow> world \<Rightarrow> string \<Rightarrow> string \<Rightarrow> error + (string \<times> nat)" where
  "getSignedUrl cfg now w storagePath bucket =
     (if list_all is_space storagePath then
        Inl (Failure ''Storage path cannot be null or empty'')
      else
        (let actualBucket = (if bucket = [] then pluginsBucket cfg else bucket);
             signUrl = projectUrl cfg @ ''/storage/v1/object/sign/'' @ actualBucket @ ''/''
                       @ storagePath
         in case st_signing w signUrl of
              None \<Rightarrow> Inl (Failure ''Signed URL generation failed'')
            | Some signedURL \<Rightarrow>
                if signedURL = [] then Inl (Failure ''Signed URL generation failed'')
                else Inr (projectUrl cfg @ ''/storage/v1'' @ signedURL,
                          now div 1000 + signedUrlTtlSeconds cfg)))"

text \<open>The decimal numeral of a number, as a template literal prints \<^verbatim>\<open>Date.now()\<close>.\<close>

fun string_of_nat :: "nat \<Rightarrow> string" where
  "string_of_nat n =
     (if n < 10 then [''0123456789'' ! n]
      else string_of_nat (n div 10) @ [''0123456789'' ! (n mod 10)])"

declare string_of_nat.simps [simp del]

record ArtifactUploadResult =
  ur_storagePath :: string
  ur_bucket :: string
  ur_fileSizeBytes :: nat
  ur_checksumSha256 :: string
  ur_contentType :: string
  ur_tempPath :: string

text \<open>
  \<^verbatim>\<open>SupabaseStorageService.uploadArtifact\<close>. The SHA-256 function of \<^verbatim>\<open>calculateChecksum\<close>
  is the parameter \<open>sha256\<close>; \<open>now\<close> is the reading of \<^verbatim>\<open>Date.now()\<close>.
\<close>

definition uploadArtifact ::
  "Config \<Rightarrow> (string \<Rightarrow> string) \<Rightarrow> nat \<Rightarrow> world \<Rightarrow> string \<Rightarrow> string \<Rightarrow> string \<Rightarrow> string
    \<Rightarrow> (error + ArtifactUploadResult) \<times> world" where
  "uploadArtifact cfg sha256 now w buffer contentType packageId version =
     (let checksum = sha256 buffer;
          storagePath = getArtifactPath packageId version;
          tempPath = ''temp_'' @ string_of_nat now @ ''/'' @ storagePath
      in case storage_upload w (tempUploadsBucket cfg) tempPath buffer of
           (Some msg, w') \<Rightarrow> (Inl (Failure (''Artifact upload failed: '' @ msg)), w')
         | (None, w') \<Rightarrow>
             (Inr \<lparr>ur_storagePath = storagePath,
                   ur_bucket = tempUploadsBucket cfg,
                   ur_fileSizeBytes = length buffer,
                   ur_checksumSha256 = checksum,
                   ur_contentType = contentType,
                   ur_tempPath = tempPath\<rparr>, w'))"

text \<open>The extension of an icon name: from the last dot on, or empty without a dot.\<close>

definition extension_of :: "string \<Rightarrow> string" where
  "extension_of iconName =
     (if CHR ''.'' \<in> set iconName
      then CHR ''.'' # rev (takeWhile (\<lambda>c. c \<noteq> CHR ''.'') (rev iconName))
      else [])"

text \<open>
  \<^verbatim>\<open>SupabaseStorageService.uploadIcon\<close>: when a URL can be signed for the path the icon
  counts as present and is not uploaded again. The content type of the upload is not
  part of the model of the store.
\<close>

definition uploadIcon ::
  "Config \<Rightarrow> nat \<Rightarrow> world \<Rightarrow> string \<Rightarrow> string \<Rightarrow> string \<Rightarrow> (error + string) \<times> world" where
  "uploadIcon cfg now w iconData iconName iconKey =
     (let storagePath = iconKey @ extension_of iconName in
      case getSignedUrl cfg now w storagePath (iconsBucket cfg) of
        Inr signed \<Rightarrow> (Inr storagePath, w)
      | Inl e \<Rightarrow>
          (case storage_upload w (iconsBucket cfg) storagePath iconData of
             (Some msg, w') \<Rightarrow> (Inl (Failure (''Icon upload failed: '' @ msg)), w')
           | (None, w') \<Rightarrow> (Inr storagePath, w')))"

section \<open>The compatibility query\<close>

text \<open>
  The SQL function \<^verbatim>\<open>find_latest_compatible_version\<close>:
  \<^verbatim>\<open>WHERE v.plugin_id = p_plugin_id AND v.status = 'PUBLISHED'
        AND v.min_app_version <= p_app_version
      ORDER BY STRING_TO_ARRAY(v.min_app_version, '.')::INT[] DESC, v.created_at DESC
      LIMIT 1\<close>

  Both sides of \<^verbatim>\<open><=\<close> are \<^verbatim>\<open>VARCHAR\<close>, so it is the comparison of strings. The model
  compares character codes from the left, a proper prefix being smaller, which is the
  order of the C collation.
\<close>

fun string_le :: "string \<Rightarrow> string \<Rightarrow> bool" where
  "string_le [] ys = True"
| "string_le (x # xs) [] = False"
| "string_le (x # xs) (y # ys) =
     ((of_char x :: nat) < of_char y \<or> (x = y \<and> string_le xs ys))"

text \<open>\<^verbatim>\<open>STRING_TO_ARRAY(s, '.')\<close>: the fields between the dots; the empty string has none.\<close>

fun split_dot :: "string \<Rightarrow> string list" where
  "split_dot [] = [[]]"
| "split_dot (c # cs) =
     (if c = CHR ''.'' then [] # split_dot cs
      else (case split_dot cs of [] \<Rightarrow> [[c]] | part # parts \<Rightarrow> (c # part) # parts))"

definition string_to_array :: "string \<Rightarrow> string list" where
  "string_to_array s = (if s = [] then [] else split_dot s)"

text \<open>
  The cast of one field to \<^verbatim>\<open>INT\<close>: a decimal numeral within 32 bits is its value, and
  a failed cast aborts the query. PostgreSQL also reads a sign and surrounding blanks;
  the model counts such a field, like every other one, as a failed cast.
\<close>

definition is_digit :: "char \<Rightarrow> bool" where
  "is_digit c = (48 \<le> (of_char c :: nat) \<and> (of_char c :: nat) \<le> 57)"

fun digits_value :: "nat \<Rightarrow> string \<Rightarrow> nat" where
  "digits_value acc [] = acc"
| "digits_value acc (c # cs) = digits_value (acc * 10 + (of_char c - 48)) cs"

definition cast_int :: "string \<Rightarrow> int option" where
  "cast_int s =
     (if s \<noteq> [] \<and> list_all is_digit s \<and> digits_value 0 s \<le> 2147483647
      then Some (int (digits_value 0 s)) else None)"

fun cast_int_array :: "string list \<Rightarrow> int list option" where
  "cast_int_array [] = Some []"
| "cast_int_array (s # ss) =
     (case cast_int s of
        None \<Rightarrow> None
      | Some n \<Rightarrow> (case cast_int_array ss of None \<Rightarrow> None | Some ns \<Rightarrow> Some (n # ns)))"

text \<open>The order of integer arrays: element by element, a proper prefix being smaller.\<close>

fun array_lt :: "int list \<Rightarrow> int list \<Rightarrow> bool" where
  "array_lt [] [] = False"
| "array_lt [] (y # ys) = True"
| "array_lt (x # xs) [] = False"
| "array_lt (x # xs) (y # ys) = (x < y \<or> (x = y \<and> array_lt xs ys))"

text \<open>The sort keys of the selected rows; one failed cast fails the query.\<close>

fun keyed_rows :: "PluginVersion list \<Rightarrow> (int list \<times> PluginVersion) list option" where
  "keyed_rows [] = Some []"
| "keyed_rows (v # vs) =
     (case cast_int_array (string_to_array (v_minAppVersion v)) of
        None \<Rightarrow> None
      | Some k \<Rightarrow> (case keyed_rows vs of None \<Rightarrow> None | Some ks \<Rightarrow> Some ((k, v) # ks)))"

text \<open>
  \<open>row_before a b\<close>: row \<open>a\<close> comes strictly before row \<open>b\<close> in
  \<^verbatim>\<open>ORDER BY key DESC, created_at DESC\<close>. \<open>first_row\<close> is the row of \<^verbatim>\<open>LIMIT 1\<close>; among
  rows that the order does not separate the model takes the first of the table.
\<close>

definition row_before :: "int list \<times> PluginVersion \<Rightarrow> int list \<times> PluginVersion \<Rightarrow> bool" where
  "row_before a b =
     (array_lt (fst b) (fst a) \<or> (fst a = fst b \<and> v_createdAt (snd b) < v_createdAt (snd a)))"

fun first_row :: "(int list \<times> PluginVersion) list \<Rightarrow> (int list \<times> PluginVersion) option" where
  "first_row [] = None"
| "first_row (r # rs) =
     (case first_row rs of
        None \<Rightarrow> Some r
      | Some b \<Rightarrow> if row_before b r then Some b else Some r)"

definition find_latest_compatible_version ::
  "world \<Rightarrow> string \<Rightarrow> string \<Rightarrow> string + PluginVersion list" where
  "find_latest_compatible_version w p_plugin_id p_app_version =
     (case keyed_rows
             (filter (\<lambda>v. v_pluginId v = p_plugin_id \<and> v_status v = PUBLISHED \<and>
                          string_le (v_minAppVersion v) p_app_version) (db_versions w)) of
        None \<Rightarrow> Inl ''invalid input syntax for type integer''
      | Some rows \<Rightarrow>
          (case first_row rows of None \<Rightarrow> Inr [] | Some (k, v) \<Rightarrow> Inr [v]))"

text \<open>
  \<^verbatim>\<open>PluginVersionsRepository.findLatestCompatibleVersion\<close>: a failed call has no data and
  gives \<^verbatim>\<open>null\<close>, an empty array gives \<^verbatim>\<open>null\<close>, otherwise the first row.
\<close>

definition findLatestCompatibleVersion :: "world \<Rightarrow> string \<Rightarrow> string \<Rightarrow> PluginVersion option" where
  "findLatestCompatibleVersion w pluginId appVersion =
     (case find_latest_compatible_version w pluginId appVersion of
        Inl msg \<Rightarrow> None
      | Inr [] \<Rightarrow> None
      | Inr (row # rows) \<Rightarrow> Some row)"

section \<open>The plugins service\<close>

text \<open>
  \<^verbatim>\<open>PluginDetailResponse\<close> lists the fields of the plugin and of the version one by one;
  the model keeps the two entities and the download information.
\<close>

record PluginDetailResponse =
  dr_plugin :: Plugin
  dr_version :: PluginVersion
  dr_downloadUrl :: "string option"
  dr_expiresAt :: "nat option"

text \<open>
  \<^verbatim>\<open>PluginsService.toPluginDetailResponse\<close>: a URL is signed when the version has a
  truthy \<^verbatim>\<open>storagePath\<close> and \<^verbatim>\<open>storageBucket\<close>; a failure of the signing leaves both
  fields \<^verbatim>\<open>null\<close>.
\<close>

definition toPluginDetailResponse ::
  "Config \<Rightarrow> nat \<Rightarrow> world \<Rightarrow> Plugin \<Rightarrow> PluginVersion \<Rightarrow> PluginDetailResponse" where
  "toPluginDetailResponse cfg now w plugin version =
     (if truthy (v_storagePath version) \<and> truthy (v_storageBucket version) then
        (case getSignedUrl cfg now w (or_default (v_storagePath version) [])
                (or_default (v_storageBucket version) []) of
           Inr (url, expires) \<Rightarrow>
             \<lparr>dr_plugin = plugin, dr_version = version,
              dr_downloadUrl = Some url, dr_expiresAt = Some expires\<rparr>
         | Inl e \<Rightarrow>
             \<lparr>dr_plugin = plugin, dr_version = version,
              dr_downloadUrl = None, dr_expiresAt = None\<rparr>)
      else
        \<lparr>dr_plugin = plugin, dr_version = version,
         dr_downloadUrl = None, dr_expiresAt = None\<rparr>)"

text \<open>
  The SQL function \<^verbatim>\<open>increment_download_count\<close>. The service starts it without waiting
  and logs its failure; the model runs it before the response is built from the version
  that was read earlier.
\<close>

definition incrementDownloadCount :: "world \<Rightarrow> string \<Rightarrow> world" where
  "incrementDownloadCount w versionId =
     w\<lparr>db_versions :=
         map (\<lambda>r. if v_id r = versionId then r\<lparr>v_downloadCount := v_downloadCount r + 1\<rparr> else r)
           (db_versions w)\<rparr>"

definition quoted :: "string \<Rightarrow> string" where
  "quoted s = CHR 0x27 # s @ [CHR 0x27]"

text \<open>
  \<^verbatim>\<open>PluginsService.getPluginByPackageId\<close>. The optional \<^verbatim>\<open>appVersion\<close> is tested for
  truthiness, so the empty string counts as absent.
\<close>

definition getPluginByPackageId ::
  "Config \<Rightarrow> nat \<Rightarrow> world \<Rightarrow> string \<Rightarrow> string option \<Rightarrow> (error + PluginDetailResponse) \<times> world" where
  "getPluginByPackageId cfg now w packageId appVersion =
     (case findByPackageId w packageId of
        None \<Rightarrow> (Inl (ResourceNotFound ''Plugin'' ''packageId'' packageId), w)
      | Some plugin \<Rightarrow>
          if p_status plugin \<noteq> P_PUBLISHED then
            (Inl (ResourceNotFound ''Plugin'' ''packageId'' packageId), w)
          else
            (case (if truthy appVersion then
                     (case findLatestCompatibleVersion w (p_id plugin) (or_default appVersion []) of
                        None \<Rightarrow>
                          Inl (InvalidVersion
                            (''No compatible version found for plugin '' @ quoted packageId @
                             '' with app version '' @ quoted (or_default appVersion []) @
                             ''. The plugin requires a newer version of the app.''))
                      | Some compatible \<Rightarrow> Inr compatible)
                   else if \<not> truthy (p_latestVersionId plugin) then
                     Inl (ResourceNotFound ''PluginVersion'' ''id'' ''<none>'')
                   else
                     (case versions_findById w (or_default (p_latestVersionId plugin) []) of
                        None \<Rightarrow>
                          Inl (InvalidVersion
                            (''No published version available for plugin: '' @ packageId))
                      | Some latest \<Rightarrow> Inr latest)) of
               Inl e \<Rightarrow> (Inl e, w)
             | Inr version \<Rightarrow>
                 (Inr (toPluginDetailResponse cfg now w plugin version),
                  incrementDownloadCount w (v_id version))))"

record CreatePluginDto =
  c_packageId :: string
  c_name :: string
  c_description :: "string option"
  c_author :: string
  c_iconKey :: "string option"
  c_category :: "string option"
  c_tags :: "string option"
  c_sourceUrl :: "string option"

record CreatePluginVersionDto =
  cv_pluginId :: string
  cv_version :: string
  cv_manifest :: Manifest
  cv_minAppVersion :: string
  cv_releaseNotes :: "string option"
  cv_storagePath :: "string option"
  cv_storageBucket :: "string option"
  cv_tempStoragePath :: "string option"
  cv_fileSizeBytes :: "nat option"
  cv_checksumSha256 :: "string option"

text \<open>
  \<^verbatim>\<open>PluginsRepository.create\<close>. \<open>newId\<close> is the value of \<^verbatim>\<open>crypto.randomUUID()\<close>. The
  insert fails on the primary key and on the unique \<^verbatim>\<open>package_id\<close> of the schema.
\<close>

definition plugins_create ::
  "world \<Rightarrow> nat \<Rightarrow> string \<Rightarrow> CreatePluginDto \<Rightarrow> (error + Plugin) \<times> world" where
  "plugins_create w now newId dto =
     (if list_ex (\<lambda>r. p_id r = newId \<or> p_packageId r = c_packageId dto) (db_plugins w) then
        (Inl (Failure
           (''Failed to create plugin: duplicate key value violates unique constraint'')), w)
      else
        (let p = \<lparr>p_id = newId,
                  p_packageId = c_packageId dto,
                  p_name = c_name dto,
                  p_description = or_null (c_description dto),
                  p_author = c_author dto,
                  p_iconKey = or_null (c_iconKey dto),
                  p_status = P_SUBMITTED,
                  p_latestVersionId = None,
                  p_category = or_null (c_category dto),
                  p_tags = or_null (c_tags dto),
                  p_sourceUrl = or_null (c_sourceUrl dto),
                  p_createdAt = now,
                  p_updatedAt = now\<rparr>
         in (Inr p, w\<lparr>db_plugins := db_plugins w @ [p]\<rparr>)))"

text \<open>
  \<^verbatim>\<open>PluginVersionsRepository.create\<close>: every optional field goes through \<^verbatim>\<open>|| null\<close>
  (so a size of 0 is stored as \<^verbatim>\<open>null\<close>), the status is SUBMITTED. The insert fails on the
  primary key, on the unique pair of plugin and version, and on the foreign key.
\<close>

definition versions_create ::
  "world \<Rightarrow> nat \<Rightarrow> string \<Rightarrow> CreatePluginVersionDto \<Rightarrow> (error + PluginVersion) \<times> world" where
  "versions_create w now newId dto =
     (if list_ex (\<lambda>r. v_id r = newId \<or>
                      (v_pluginId r = cv_pluginId dto \<and> v_version r = cv_version dto))
           (db_versions w) then
        (Inl (Failure
           (''Failed to create plugin version: duplicate key value violates unique constraint'')),
         w)
      else if \<not> list_ex (\<lambda>r. p_id r = cv_pluginId dto) (db_plugins w) then
        (Inl (Failure
           (''Failed to create plugin version: insert violates foreign key constraint'')), w)
      else
        (let v = \<lparr>v_id = newId,
                  v_pluginId = cv_pluginId dto,
                  v_version = cv_version dto,
                  v_storagePath = or_null (cv_storagePath dto),
                  v_storageBucket = or_null (cv_storageBucket dto),
                  v_tempStoragePath = or_null (cv_tempStoragePath dto),
                  v_fileSizeBytes =
                    (case cv_fileSizeBytes dto of
                       None \<Rightarrow> None
                     | Some n \<Rightarrow> if n = 0 then None else Some n),
                  v_checksumSha256 = or_null (cv_checksumSha256 dto),
                  v_manifest = cv_manifest dto,
                  v_minAppVersion = cv_minAppVersion dto,
                  v_releaseNotes = or_null (cv_releaseNotes dto),
                  v_status = SUBMITTED,
                  v_rejectionReason = None,
                  v_reviewedBy = None,
                  v_createdAt = now,
                  v_reviewedAt = None,
                  v_publishedAt = None,
                  v_downloadCount = 0,
                  v_isFlagged = False,
                  v_flagReason = None\<rparr>
         in (Inr v, w\<lparr>db_versions := db_versions w @ [v]\<rparr>)))"

text \<open>
  \<^verbatim>\<open>PluginsService.submitPlugin\<close>. Its seventeen positional arguments are the fields of
  the two DTOs it builds, so the model takes the DTOs; the \<open>cv_pluginId\<close> of the second
  is filled in here with the id of the plugin found or created.
\<close>

definition submitPlugin ::
  "Config \<Rightarrow> nat \<Rightarrow> string \<Rightarrow> string \<Rightarrow> world \<Rightarrow> CreatePluginDto \<Rightarrow> CreatePluginVersionDto
    \<Rightarrow> (error + PluginDetailResponse) \<times> world" where
  "submitPlugin cfg now newPluginId newVersionId w dto vdto =
     (case (case findByPackageId w (c_packageId dto) of
              None \<Rightarrow> plugins_create w now newPluginId dto
            | Some plugin \<Rightarrow>
                (case findByPluginIdAndVersion w (p_id plugin) (cv_version vdto) of
                   Some existing \<Rightarrow>
                     (Inl (VersionConflict (c_packageId dto) (cv_version vdto)), w)
                 | None \<Rightarrow> (Inr plugin, w))) of
        (Inl e, w1) \<Rightarrow> (Inl e, w1)
      | (Inr plugin, w1) \<Rightarrow>
          (case versions_create w1 now newVersionId (vdto\<lparr>cv_pluginId := p_id plugin\<rparr>) of
             (Inl e, w2) \<Rightarrow> (Inl e, w2)
           | (Inr versionData, w2) \<Rightarrow>
               (case (if p_status plugin = P_SUBMITTED
                      then plugins_update w2 now (p_id plugin)
                             (\<lambda>r. r\<lparr>p_status := P_PENDING_REVIEW\<rparr>)
                      else (Inr plugin, w2)) of
                  (Inl e, w3) \<Rightarrow> (Inl e, w3)
                | (Inr plugin', w3) \<Rightarrow>
                    (Inr (toPluginDetailResponse cfg now w3 plugin' versionData), w3))))"

section \<open>The developer service\<close>

text \<open>What \<^verbatim>\<open>SynxPackageService.extractPackage\<close> returns, and the uploaded file.\<close>

record SynxPackage =
  pkg_manifest :: Manifest
  pkg_jsCode :: string
  pkg_iconData :: "string option"
  pkg_iconName :: "string option"

record MulterFile =
  f_originalname :: string
  f_mimetype :: string
  f_buffer :: string

record PartialUploadState =
  us_packageId :: string
  us_uploadedIconKey :: "string option"
  us_artifactUploadResult :: "ArtifactUploadResult option"

text \<open>
  \<^verbatim>\<open>DeveloperService.cleanupFailedUpload\<close>: the icon is deleted from the bucket named
  \<^verbatim>\<open>'icons'\<close> and the artifact from the bucket named \<^verbatim>\<open>'temp_uploads'\<close>; an error of
  either deletion is logged only.
\<close>

definition cleanupFailedUpload :: "world \<Rightarrow> PartialUploadState \<Rightarrow> world" where
  "cleanupFailedUpload w state =
     (let w1 = (if truthy (us_uploadedIconKey state)
                then snd (deleteArtifact w (or_default (us_uploadedIconKey state) []) ''icons'')
                else w)
      in case us_artifactUploadResult state of
           None \<Rightarrow> w1
         | Some uploadResult \<Rightarrow>
             if ur_tempPath uploadResult = [] then w1
             else snd (deleteArtifact w1 (ur_tempPath uploadResult) ''temp_uploads''))"

text \<open>
  The \<^verbatim>\<open>try\<close> block of \<^verbatim>\<open>submitPluginSynx\<close>, returning with its result the tracking state
  as it stands when the block ends. The package service is injected, so the extraction
  is the parameter \<open>extractPackage\<close>. A \<^verbatim>\<open>Buffer\<close> is truthy even when empty, a name only
  when not empty.
\<close>

definition submit_try ::
  "Config \<Rightarrow> (string \<Rightarrow> string) \<Rightarrow> (string \<Rightarrow> error + SynxPackage) \<Rightarrow> nat \<Rightarrow> string \<Rightarrow> string
    \<Rightarrow> world \<Rightarrow> MulterFile \<Rightarrow> string
    \<Rightarrow> (error + PluginDetailResponse) \<times> PartialUploadState \<times> world" where
  "submit_try cfg sha256 extractPackage now newPluginId newVersionId w file packageId =
     (let state = \<lparr>us_packageId = packageId, us_uploadedIconKey = None,
                   us_artifactUploadResult = None\<rparr>
      in case extractPackage (f_buffer file) of
           Inl e \<Rightarrow> (Inl e, state, w)
         | Inr pkg \<Rightarrow>
             (let manifest = pkg_manifest pkg;
                  version = or_default (m_version manifest) ''1.0.0'';
                  name = or_default (m_name manifest) packageId;
                  description = or_default (m_description manifest) [];
                  author = or_default (m_author manifest) ''Unknown'';
                  minAppVersion = or_default (m_minAppVersion manifest) ''1.0.0''
              in case (case pkg_iconData pkg of
                         None \<Rightarrow> (Inr None, w)
                       | Some iconData \<Rightarrow>
                           if \<not> truthy (pkg_iconName pkg) then (Inr None, w)
                           else
                             (case uploadIcon cfg now w iconData
                                     (or_default (pkg_iconName pkg) []) (sha256 iconData) of
                                (Inl e, w1) \<Rightarrow> (Inl e, w1)
                              | (Inr iconKey, w1) \<Rightarrow> (Inr (Some iconKey), w1))) of
                   (Inl e, w1) \<Rightarrow> (Inl e, state, w1)
                 | (Inr uploadedIconKey, w1) \<Rightarrow>
                     (let state1 = state\<lparr>us_uploadedIconKey := uploadedIconKey\<rparr> in
                      case uploadArtifact cfg sha256 now w1 (f_buffer file) (f_mimetype file)
                             packageId version of
                        (Inl e, w2) \<Rightarrow> (Inl e, state1, w2)
                      | (Inr uploadResult, w2) \<Rightarrow>
                          (let state2 = state1\<lparr>us_artifactUploadResult := Some uploadResult\<rparr> in
                           case submitPlugin cfg now newPluginId newVersionId w2
                                  \<lparr>c_packageId = packageId, c_name = name,
                                   c_description = Some description, c_author = author,
                                   c_iconKey = or_null uploadedIconKey, c_category = None,
                                   c_tags = None, c_sourceUrl = None\<rparr>
                                  \<lparr>cv_pluginId = [], cv_version = version,
                                   cv_manifest = manifest, cv_minAppVersion = minAppVersion,
                                   cv_releaseNotes = None,
                                   cv_storagePath = Some (ur_storagePath uploadResult),
                                   cv_storageBucket = Some (ur_bucket uploadResult),
                                   cv_tempStoragePath = Some (ur_tempPath uploadResult),
                                   cv_fileSizeBytes = Some (ur_fileSizeBytes uploadResult),
                                   cv_checksumSha256 = Some (ur_checksumSha256 uploadResult)\<rparr> of
                             (Inl e, w3) \<Rightarrow> (Inl e, state2, w3)
                           | (Inr response, w3) \<Rightarrow>
                               (Inr response,
                                state2\<lparr>us_uploadedIconKey := None,
                                       us_artifactUploadResult := None\<rparr>, w3)))))"

text \<open>
  \<^verbatim>\<open>DeveloperService.submitPluginSynx\<close>: the \<^verbatim>\<open>catch\<close> runs the cleanup and throws the
  error it caught.
\<close>

definition submitPluginSynx ::
  "Config \<Rightarrow> (string \<Rightarrow> string) \<Rightarrow> (string \<Rightarrow> error + SynxPackage) \<Rightarrow> nat \<Rightarrow> string \<Rightarrow> string
    \<Rightarrow> world \<Rightarrow> MulterFile \<Rightarrow> string \<Rightarrow> (error + PluginDetailResponse) \<times> world" where
  "submitPluginSynx cfg sha256 extractPackage now newPluginId newVersionId w file packageId =
     (case submit_try cfg sha256 extractPackage now newPluginId newVersionId w file packageId of
        (Inl e, state, w') \<Rightarrow> (Inl e, cleanupFailedUpload w' state)
      | (Inr response, state, w') \<Rightarrow> (Inr response, w'))"

section \<open>Concrete configurations and states\<close>

text \<open>The configuration with the default bucket names of \<^verbatim>\<open>supabase.config.ts\<close>.\<close>

definition default_config :: Config where
  "default_config =
     \<lparr>projectUrl = ''https://project.supabase.co'', signedUrlTtlSeconds = 3600,
      pluginsBucket = ''plugins'', iconsBucket = ''icons'',
      tempUploadsBucket = ''temp_uploads''\<rparr>"

text \<open>
  A configuration whose staging bucket has the name that the schema script and the
  README give it, \<^verbatim>\<open>temp-uploads\<close>, set through \<^verbatim>\<open>STORAGE_TEMP_UPLOADS_BUCKET\<close>.
\<close>

definition hyphen_config :: Config where
  "hyphen_config = default_config\<lparr>tempUploadsBucket := ''temp-uploads''\<rparr>"

definition example_manifest :: Manifest where
  "example_manifest =
     \<lparr>m_name = Some ''Tic Tac Toe'', m_version = Some ''1.0.0'', m_description = None,
      m_author = None, m_minAppVersion = None\<rparr>"

definition example_plugin :: "PluginStatus \<Rightarrow> string option \<Rightarrow> Plugin" where
  "example_plugin status latest =
     \<lparr>p_id = ''p1'', p_packageId = ''com.synapse.tictic'', p_name = ''Tic Tac Toe'',
      p_description = None, p_author = ''Synapse Team'', p_iconKey = None,
      p_status = status, p_latestVersionId = latest, p_category = Some ''games'',
      p_tags = None, p_sourceUrl = None, p_createdAt = 1, p_updatedAt = 1\<rparr>"

definition example_version ::
  "string \<Rightarrow> string \<Rightarrow> VersionStatus \<Rightarrow> string \<Rightarrow> nat \<Rightarrow> string option \<Rightarrow> string option
    \<Rightarrow> PluginVersion" where
  "example_version i version status minAppVersion createdAt storagePath tempStoragePath =
     \<lparr>v_id = i, v_pluginId = ''p1'', v_version = version,
      v_storagePath = storagePath, v_storageBucket = None,
      v_tempStoragePath = tempStoragePath, v_fileSizeBytes = None,
      v_checksumSha256 = None, v_manifest = example_manifest,
      v_minAppVersion = minAppVersion, v_releaseNotes = None, v_status = status,
      v_rejectionReason = None, v_reviewedBy = None, v_createdAt = createdAt,
      v_reviewedAt = None, v_publishedAt = None, v_downloadCount = 0,
      v_isFlagged = False, v_flagReason = None\<rparr>"

definition example_world ::
  "Plugin list \<Rightarrow> PluginVersion list \<Rightarrow> (string \<times> string \<Rightarrow> string option)
    \<Rightarrow> (call \<Rightarrow> string option) \<Rightarrow> world" where
  "example_world plugins versions objects failing =
     \<lparr>db_plugins = plugins, db_versions = versions, st_objects = objects,
      st_failing = failing, st_signing = (\<lambda>url. None), st_calls = []\<rparr>"

text \<open>A store that holds one staged artifact, and answers every call without error.\<close>

definition staged_objects :: "string \<times> string \<Rightarrow> string option" where
  "staged_objects = (\<lambda>k. None)((''temp_uploads'', ''temp_7/a.synx'') := Some ''PK'')"

definition no_failure :: "call \<Rightarrow> string option" where
  "no_failure = (\<lambda>c. None)"

text \<open>A store that rejects the upload to the permanent bucket.\<close>

definition upload_rejected :: "call \<Rightarrow> string option" where
  "upload_rejected =
     (\<lambda>c. None)(Upload ''plugins'' ''com.synapse.tictic/v1.0.0/plugin.synx'' := Some ''quota'')"


text \<open>The two decisions, by the reviewer \<^verbatim>\<open>admin\<close>.\<close>

definition publish_request :: ReviewDecisionRequestDto where
  "publish_request =
     \<lparr>rd_decision = PUBLISH, rd_rejectionReason = None, rd_reviewedBy = ''admin''\<rparr>"

definition reject_request :: ReviewDecisionRequestDto where
  "reject_request =
     \<lparr>rd_decision = REJECT, rd_rejectionReason = Some ''policy'', rd_reviewedBy = ''admin''\<rparr>"

text \<open>
  A published plugin whose only version, \<^verbatim>\<open>v1\<close>, is published and is its latest
  version.
\<close>

definition published_world :: world where
  "published_world =
     example_world [example_plugin P_PUBLISHED (Some ''v1'')]
       [example_version ''v1'' ''1.0.0'' PUBLISHED ''1.0.0'' 5
          (Some ''com.synapse.tictic/v1.0.0/plugin.synx'') None]
       (\<lambda>k. None) no_failure"

text \<open>
  A plugin under review whose only version was created by \<^verbatim>\<open>submitPlugin\<close> without any
  storage argument, as the unit tests of the plugins service call it: no storage path
  and no temp path.
\<close>

definition submitted_world :: world where
  "submitted_world =
     example_world [example_plugin P_PENDING_REVIEW None]
       [example_version ''v1'' ''1.0.0'' SUBMITTED ''1.0.0'' 5 None None]
       (\<lambda>k. None) no_failure"



text \<open>
  A published plugin with one published version whose \<open>minAppVersion\<close> is 1.9.0, and
  the same plugin with a second published version whose \<open>minAppVersion\<close> is 1.10.0.
\<close>

definition one_floor_world :: world where
  "one_floor_world =
     example_world [example_plugin P_PUBLISHED (Some ''v1'')]
       [example_version ''v1'' ''1.0.0'' PUBLISHED ''1.9.0'' 5
          (Some ''com.synapse.tictic/v1.0.0/plugin.synx'') None]
       (\<lambda>k. None) no_failure"

definition two_floor_world :: world where
  "two_floor_world =
     example_world [example_plugin P_PUBLISHED (Some ''v2'')]
       [example_version ''v1'' ''1.0.0'' PUBLISHED ''1.9.0'' 5
          (Some ''com.synapse.tictic/v1.0.0/plugin.synx'') None,
        example_version ''v2'' ''2.0.0'' PUBLISHED ''1.10.0'' 8
          (Some ''com.synapse.tictic/v2.0.0/plugin.synx'') None]
       (\<lambda>k. None) no_failure"

text \<open>An uploaded package without an icon, its extraction, and a checksum function.\<close>

definition example_file :: MulterFile where
  "example_file =
     \<lparr>f_originalname = ''tictic.synx'', f_mimetype = ''application/zip'', f_buffer = ''PK''\<rparr>"

definition example_extract :: "string \<Rightarrow> error + SynxPackage" where
  "example_extract buffer =
     Inr \<lparr>pkg_manifest = example_manifest, pkg_jsCode = ''run()'',
          pkg_iconData = None, pkg_iconName = None\<rparr>"

definition example_sha256 :: "string \<Rightarrow> string" where
  "example_sha256 buffer = ''9f86d081''"


section \<open>Facts about the repositories\<close>














section \<open>Facts about the review service\<close>

lemma versions_update_error:
  "versions_update w i f = (Inl e, w') \<Longrightarrow> \<exists>m. e = Failure m"
  by (auto simp: versions_update_def split: option.splits)

lemma plugins_update_error:
  "plugins_update w now i f = (Inl e, w') \<Longrightarrow> \<exists>m. e = Failure m"
  by (auto simp: plugins_update_def split: option.splits)

lemma publish_move_error:
  "publish_move cfg w version plugin = (Inl e, w') \<Longrightarrow> \<exists>m. e = Failure m"
  by (auto simp: publish_move_def split: option.splits if_splits prod.splits sum.splits)

lemma handlePublishDecision_error:
  assumes "fst (handlePublishDecision cfg now w version plugin reviewedBy) = Inl e"
  shows "\<exists>m. e = Failure m"
  using assms
  by (auto simp: handlePublishDecision_def split: prod.splits sum.splits
      dest: publish_move_error versions_update_error plugins_update_error)

lemma handleRejectDecision_error:
  assumes "fst (handleRejectDecision now w version plugin d) = Inl e"
  shows "\<exists>m. e = Failure m"
  using assms
  by (auto simp: handleRejectDecision_def Let_def
      split: prod.splits sum.splits list.splits if_splits
      dest: versions_update_error plugins_update_error)

lemma terminal_iff: "\<not> isValidTransition s d \<longleftrightarrow> s \<in> {PUBLISHED, REJECTED, FLAGGED}"
  by (cases s) auto






lemmas example_defs = example_world_def example_plugin_def example_version_def
  no_failure_def staged_objects_def default_config_def publish_request_def reject_request_def

section \<open>Facts about the submission\<close>

lemma toPluginDetailResponse_version [simp]:
  "dr_version (toPluginDetailResponse cfg now w plugin version) = version"
  by (auto simp: toPluginDetailResponse_def split: sum.splits prod.splits)







section \<open>Facts about the concrete states\<close>

lemma published_world_version:
  "versions_findById published_world ''v1'' =
     Some (example_version ''v1'' ''1.0.0'' PUBLISHED ''1.0.0'' 5
             (Some ''com.synapse.tictic/v1.0.0/plugin.synx'') None)"
  by (simp add: published_world_def versions_findById_def single_def example_defs)

lemma published_world_plugin:
  "plugins_findById published_world ''p1'' = Some (example_plugin P_PUBLISHED (Some ''v1''))"
  by (simp add: published_world_def plugins_findById_def single_def example_defs)

lemma submitted_world_version:
  "versions_findById submitted_world ''v1'' =
     Some (example_version ''v1'' ''1.0.0'' SUBMITTED ''1.0.0'' 5 None None)"
  by (simp add: submitted_world_def versions_findById_def single_def example_defs)

lemma submitted_world_plugin:
  "plugins_findById submitted_world ''p1'' = Some (example_plugin P_PENDING_REVIEW None)"
  by (simp add: submitted_world_def plugins_findById_def single_def example_defs)






section \<open>Properties of the storage service\<close>

lemma moveArtifact_calls:
  "st_calls (snd (moveArtifact cfg w sourcePath packageId version)) =
     st_calls w @ move_calls cfg w sourcePath packageId version"
  by (auto simp: moveArtifact_def move_calls_def download_ok_def upload_ok_def
      storage_download_def storage_upload_def storage_remove_def deleteArtifact_def Let_def
      split: option.splits)

lemma moveArtifact_failed_early:
  assumes "\<not> download_ok cfg w sourcePath \<or> \<not> upload_ok cfg w packageId version"
  shows "st_objects (snd (moveArtifact cfg w sourcePath packageId version)) = st_objects w"
    and "isl (fst (moveArtifact cfg w sourcePath packageId version))"
  using assms
  by (auto simp: moveArtifact_def download_ok_def upload_ok_def
      storage_download_def storage_upload_def Let_def split: option.splits)

text \<open>
  C8. In every run of \<open>moveArtifact\<close> the calls on the store are a prefix of: download
  of the source from the temp bucket, upload to the artifact path of the plugins bucket,
  removal of the source. The removal is made only when both the download and the upload
  were answered without error, and a run in which the download or the upload fails
  returns an error and leaves every object of the store, the source among them, as it
  was.
\<close>

theorem moveArtifact_deletes_source_last:
  "st_calls (snd (moveArtifact cfg w sourcePath packageId version)) =
     st_calls w @ move_calls cfg w sourcePath packageId version
   \<and> (Remove (tempUploadsBucket cfg) sourcePath
        \<in> set (move_calls cfg w sourcePath packageId version)
       \<longrightarrow> download_ok cfg w sourcePath \<and> upload_ok cfg w packageId version)
   \<and> (\<not> download_ok cfg w sourcePath \<or> \<not> upload_ok cfg w packageId version
       \<longrightarrow> isl (fst (moveArtifact cfg w sourcePath packageId version))
         \<and> st_objects (snd (moveArtifact cfg w sourcePath packageId version)) = st_objects w)"
proof (intro conjI impI)
  show "st_calls (snd (moveArtifact cfg w sourcePath packageId version)) =
     st_calls w @ move_calls cfg w sourcePath packageId version"
    by (rule moveArtifact_calls)
next
  assume "Remove (tempUploadsBucket cfg) sourcePath
    \<in> set (move_calls cfg w sourcePath packageId version)"
  then show "download_ok cfg w sourcePath"
    by (auto simp: move_calls_def split: if_splits)
next
  assume "Remove (tempUploadsBucket cfg) sourcePath
    \<in> set (move_calls cfg w sourcePath packageId version)"
  then show "upload_ok cfg w packageId version"
    by (auto simp: move_calls_def split: if_splits)
next
  assume "\<not> download_ok cfg w sourcePath \<or> \<not> upload_ok cfg w packageId version"
  then show "isl (fst (moveArtifact cfg w sourcePath packageId version))"
    by (rule moveArtifact_failed_early)
next
  assume "\<not> download_ok cfg w sourcePath \<or> \<not> upload_ok cfg w packageId version"
  then show "st_objects (snd (moveArtifact cfg w sourcePath packageId version)) = st_objects w"
    by (rule moveArtifact_failed_early)
qed

text \<open>The theorem at a concrete state.\<close>

theorem moveArtifact_deletes_source_last_witness:
  "\<not> upload_ok default_config (example_world [] [] staged_objects upload_rejected)
        ''com.synapse.tictic'' ''1.0.0''
   \<and> isl (fst (moveArtifact default_config (example_world [] [] staged_objects upload_rejected)
                 ''temp_7/a.synx'' ''com.synapse.tictic'' ''1.0.0''))
   \<and> st_objects (snd (moveArtifact default_config
                         (example_world [] [] staged_objects upload_rejected)
                         ''temp_7/a.synx'' ''com.synapse.tictic'' ''1.0.0''))
        (''temp_uploads'', ''temp_7/a.synx'') = Some ''PK''
   \<and> st_calls (snd (moveArtifact default_config
                       (example_world [] [] staged_objects no_failure)
                       ''temp_7/a.synx'' ''com.synapse.tictic'' ''1.0.0''))
       = [Download ''temp_uploads'' ''temp_7/a.synx'',
          Upload ''plugins'' ''com.synapse.tictic/v1.0.0/plugin.synx'',
          Remove ''temp_uploads'' ''temp_7/a.synx'']"
  using moveArtifact_deletes_source_last
          [of default_config "example_world [] [] staged_objects upload_rejected"
              "''temp_7/a.synx''" "''com.synapse.tictic''" "''1.0.0''"]
        moveArtifact_deletes_source_last
          [of default_config "example_world [] [] staged_objects no_failure"
              "''temp_7/a.synx''" "''com.synapse.tictic''" "''1.0.0''"]
  by (simp add: upload_ok_def download_ok_def move_calls_def default_config_def
      example_world_def upload_rejected_def staged_objects_def no_failure_def
      getArtifactPath_def)




section \<open>Properties of the review service\<close>







text \<open>
  C4. For a version that exists and whose plugin exists (which the foreign key of the
  schema gives), \<open>submitReviewDecision\<close> raises \<open>InvalidTransition\<close> exactly when the
  status of the version is PUBLISHED, REJECTED or FLAGGED, or the decision is PUBLISH and
  the automated safety check fails; and whenever it raises \<open>InvalidTransition\<close> the
  state returned is the state it was given: no row and no stored object has changed.
\<close>

theorem submitReviewDecision_invalid_transition:
  assumes "versions_findById w versionId = Some version"
      and "plugins_findById w (v_pluginId version) = Some plugin"
  shows "((\<exists>msg. fst (submitReviewDecision cfg now w versionId d) = Inl (InvalidTransition msg))
            \<longleftrightarrow> (v_status version \<in> {PUBLISHED, REJECTED, FLAGGED}
                 \<or> (rd_decision d = PUBLISH \<and> \<not> performAutomatedSafetyCheck version)))
       \<and> ((\<exists>msg. fst (submitReviewDecision cfg now w versionId d) = Inl (InvalidTransition msg))
            \<longrightarrow> snd (submitReviewDecision cfg now w versionId d) = w)"
proof (cases "isValidTransition (v_status version) (rd_decision d)")
  case False
  then have "submitReviewDecision cfg now w versionId d =
      (Inl (InvalidTransition
         (''Version status is '' @ show_VersionStatus (v_status version) @
          '', cannot transition to '' @ show_ReviewDecision (rd_decision d))), w)"
    by (simp add: submitReviewDecision_def getVersionForReview_def assms)
  moreover from False have "v_status version \<in> {PUBLISHED, REJECTED, FLAGGED}"
    by (simp add: terminal_iff)
  ultimately show ?thesis by simp
next
  case True
  then have pending: "v_status version \<notin> {PUBLISHED, REJECTED, FLAGGED}"
    using terminal_iff by blast
  have safe: "performAutomatedSafetyCheck version"
    by (simp add: performAutomatedSafetyCheck_def)
  have run: "submitReviewDecision cfg now w versionId d =
      (case rd_decision d of
         PUBLISH \<Rightarrow> handlePublishDecision cfg now w version plugin (rd_reviewedBy d)
       | REJECT \<Rightarrow> handleRejectDecision now w version plugin d)"
    using True safe by (simp add: submitReviewDecision_def getVersionForReview_def assms)
  have "\<not> (\<exists>msg. fst (submitReviewDecision cfg now w versionId d) = Inl (InvalidTransition msg))"
  proof
    assume "\<exists>msg. fst (submitReviewDecision cfg now w versionId d) = Inl (InvalidTransition msg)"
    then obtain msg where
      m: "fst (submitReviewDecision cfg now w versionId d) = Inl (InvalidTransition msg)" ..
    show False
    proof (cases "rd_decision d")
      case PUBLISH
      with m run have "fst (handlePublishDecision cfg now w version plugin (rd_reviewedBy d))
          = Inl (InvalidTransition msg)" by simp
      then show False using handlePublishDecision_error by blast
    next
      case REJECT
      with m run have "fst (handleRejectDecision now w version plugin d)
          = Inl (InvalidTransition msg)" by simp
      then show False using handleRejectDecision_error by blast
    qed
  qed
  with pending safe show ?thesis by blast
qed

text \<open>The theorem at a concrete state.\<close>

theorem submitReviewDecision_invalid_transition_witness:
  "(\<exists>msg. fst (submitReviewDecision default_config 9 published_world ''v1'' publish_request)
            = Inl (InvalidTransition msg))
   \<and> snd (submitReviewDecision default_config 9 published_world ''v1'' publish_request)
       = published_world
   \<and> (\<forall>msg. fst (submitReviewDecision default_config 9 submitted_world ''v1'' reject_request)
            \<noteq> Inl (InvalidTransition msg))"
proof -
  let ?v = "example_version ''v1'' ''1.0.0'' PUBLISHED ''1.0.0'' 5
             (Some ''com.synapse.tictic/v1.0.0/plugin.synx'') None"
  let ?u = "example_version ''v1'' ''1.0.0'' SUBMITTED ''1.0.0'' 5 None None"
  have p: "plugins_findById published_world (v_pluginId ?v)
             = Some (example_plugin P_PUBLISHED (Some ''v1''))"
    using published_world_plugin by (simp add: example_version_def)
  have q: "plugins_findById submitted_world (v_pluginId ?u)
             = Some (example_plugin P_PENDING_REVIEW None)"
    using submitted_world_plugin by (simp add: example_version_def)
  have st: "v_status ?v \<in> {PUBLISHED, REJECTED, FLAGGED}" by (simp add: example_version_def)
  have su: "v_status ?u \<notin> {PUBLISHED, REJECTED, FLAGGED}
            \<and> rd_decision reject_request \<noteq> PUBLISH"
    by (simp add: example_version_def reject_request_def)
  from submitReviewDecision_invalid_transition
         [OF published_world_version p, of default_config 9 publish_request] st
       submitReviewDecision_invalid_transition
         [OF submitted_world_version q, of default_config 9 reject_request] su
  show ?thesis by blast
qed




text \<open>
  C10. \<open>performAutomatedSafetyCheck\<close> holds of every version. So a PUBLISH decision on a
  pending version that exists, with its plugin, always goes on to
  \<open>handlePublishDecision\<close>, and never ends in \<open>InvalidTransition\<close>.
\<close>

theorem safety_check_never_blocks:
  "performAutomatedSafetyCheck version
   \<and> (rd_decision d = PUBLISH \<longrightarrow> v_status version \<in> {SUBMITTED, PENDING_REVIEW}
        \<longrightarrow> versions_findById w versionId = Some version
        \<longrightarrow> plugins_findById w (v_pluginId version) = Some plugin
        \<longrightarrow> submitReviewDecision cfg now w versionId d
              = handlePublishDecision cfg now w version plugin (rd_reviewedBy d)
            \<and> (\<forall>msg. fst (submitReviewDecision cfg now w versionId d)
                        \<noteq> Inl (InvalidTransition msg)))"
proof (intro conjI impI)
  show "performAutomatedSafetyCheck version"
    by (simp add: performAutomatedSafetyCheck_def)
next
  assume h: "rd_decision d = PUBLISH" "v_status version \<in> {SUBMITTED, PENDING_REVIEW}"
    "versions_findById w versionId = Some version"
    "plugins_findById w (v_pluginId version) = Some plugin"
  from h(2) have "isValidTransition (v_status version) (rd_decision d)" by auto
  with h show eq: "submitReviewDecision cfg now w versionId d
              = handlePublishDecision cfg now w version plugin (rd_reviewedBy d)"
    by (simp add: submitReviewDecision_def getVersionForReview_def performAutomatedSafetyCheck_def)
  show "\<forall>msg. fst (submitReviewDecision cfg now w versionId d) \<noteq> Inl (InvalidTransition msg)"
  proof (intro allI notI)
    fix msg
    assume "fst (submitReviewDecision cfg now w versionId d) = Inl (InvalidTransition msg)"
    with eq have "fst (handlePublishDecision cfg now w version plugin (rd_reviewedBy d))
        = Inl (InvalidTransition msg)" by simp
    then show False using handlePublishDecision_error by blast
  qed
qed

text \<open>The theorem at a concrete state.\<close>

theorem safety_check_never_blocks_witness:
  "performAutomatedSafetyCheck (example_version ''v1'' ''1.0.0'' SUBMITTED ''1.0.0'' 5 None None)
   \<and> submitReviewDecision default_config 9 submitted_world ''v1'' publish_request
       = handlePublishDecision default_config 9 submitted_world
           (example_version ''v1'' ''1.0.0'' SUBMITTED ''1.0.0'' 5 None None)
           (example_plugin P_PENDING_REVIEW None) ''admin''
   \<and> (\<forall>msg. fst (submitReviewDecision default_config 9 submitted_world ''v1'' publish_request)
              \<noteq> Inl (InvalidTransition msg))"
proof -
  let ?u = "example_version ''v1'' ''1.0.0'' SUBMITTED ''1.0.0'' 5 None None"
  have q: "plugins_findById submitted_world (v_pluginId ?u)
             = Some (example_plugin P_PENDING_REVIEW None)"
    using submitted_world_plugin by (simp add: example_version_def)
  have d: "rd_decision publish_request = PUBLISH" "rd_reviewedBy publish_request = ''admin''"
    by (simp_all add: publish_request_def)
  have st: "v_status ?u \<in> {SUBMITTED, PENDING_REVIEW}" by (simp add: example_version_def)
  from safety_check_never_blocks
         [of ?u publish_request submitted_world "''v1''" "example_plugin P_PENDING_REVIEW None"
             default_config 9]
       d st submitted_world_version q
  show ?thesis by metis
qed

section \<open>Properties of the resolver\<close>

text \<open>
  C1. The resolver is to select among the PUBLISHED versions whose \<open>minAppVersion\<close> is
  at most the requested version under numeric comparison of the dotted components, so
  that 1.10.0 is greater than 1.9.0. The query orders numerically but filters with the
  comparison of strings. For a plugin whose only published version needs app 1.9.0, a
  request from app 1.10.0 fails with \<open>InvalidVersion\<close>; and for a plugin with published
  versions needing 1.9.0 and 1.10.0, a request from app 1.9.5 is answered with the
  version that needs 1.10.0.
\<close>

theorem resolver_compares_strings:
  "fst (getPluginByPackageId default_config 9 one_floor_world ''com.synapse.tictic''
          (Some ''1.10.0''))
     = Inl (InvalidVersion
         (''No compatible version found for plugin '' @ quoted ''com.synapse.tictic'' @
          '' with app version '' @ quoted ''1.10.0'' @
          ''. The plugin requires a newer version of the app.''))
   \<and> map_sum id (\<lambda>response. (v_id (dr_version response), v_minAppVersion (dr_version response)))
       (fst (getPluginByPackageId default_config 9 two_floor_world ''com.synapse.tictic''
               (Some ''1.9.5'')))
     = Inr (''v2'', ''1.10.0'')"
  by (simp add: getPluginByPackageId_def findByPackageId_def single_def
      findLatestCompatibleVersion_def find_latest_compatible_version_def
      string_to_array_def cast_int_def is_digit_def row_before_def
      toPluginDetailResponse_def or_default_def
      one_floor_world_def two_floor_world_def example_defs)

section \<open>Properties of the submission\<close>




text \<open>
  C7. A submission that fails after the artifact was staged is to delete the staged
  artifact before the error reaches the caller. The cleanup deletes from the bucket named
  \<^verbatim>\<open>temp_uploads\<close> whatever bucket the configuration names for staging. With the staging
  bucket configured as \<^verbatim>\<open>temp-uploads\<close>, a submission of a version that already exists
  fails with \<open>VersionConflict\<close>, which is the original error, after one upload to
  \<^verbatim>\<open>temp-uploads\<close> and one removal from \<^verbatim>\<open>temp_uploads\<close>, and the staged artifact is
  still in the store.
\<close>

theorem cleanup_uses_fixed_bucket_names:
  "fst (submitPluginSynx hyphen_config example_sha256 example_extract 9 ''p2'' ''v2''
          published_world example_file ''com.synapse.tictic'')
     = Inl (VersionConflict ''com.synapse.tictic'' ''1.0.0'')
   \<and> st_calls (snd (submitPluginSynx hyphen_config example_sha256 example_extract 9 ''p2'' ''v2''
                      published_world example_file ''com.synapse.tictic''))
     = [Upload ''temp-uploads'' ''temp_9/com.synapse.tictic/v1.0.0/plugin.synx'',
        Remove ''temp_uploads'' ''temp_9/com.synapse.tictic/v1.0.0/plugin.synx'']
   \<and> st_objects (snd (submitPluginSynx hyphen_config example_sha256 example_extract 9 ''p2'' ''v2''
                        published_world example_file ''com.synapse.tictic''))
        (''temp-uploads'', ''temp_9/com.synapse.tictic/v1.0.0/plugin.synx'')
     = Some ''PK''"
  by (simp add: submitPluginSynx_def submit_try_def submitPlugin_def uploadArtifact_def
      storage_upload_def findByPackageId_def findByPluginIdAndVersion_def single_def
      cleanupFailedUpload_def deleteArtifact_def storage_remove_def
      getArtifactPath_def string_of_nat.simps or_default_def or_null_def Let_def
      example_extract_def example_file_def example_manifest_def example_sha256_def
      hyphen_config_def published_world_def example_defs)

end
